theory Spec2Isabelle
  imports Main "HOL-Library.Word"
begin

unbundle bit_operations_syntax

chapter \<open>The model\<close>

section \<open>Memory and exceptions\<close>

text \<open>
  Memory is a map from byte addresses to bytes.  Address 0 is the null
  pointer.  \<open>std::size_t\<close> and pointers are 64 bits wide, \<open>int\<close> and zlib's
  \<open>uInt\<close> are 32 bits wide (the LP64 data model); integers are stored
  little-endian.
\<close>

type_synonym addr = nat
type_synonym byte = "8 word"
type_synonym memory = "addr \<Rightarrow> byte"
type_synonym size_t = "64 word"
type_synonym uInt = "32 word"

definition nullptr :: addr where
  "nullptr = 0"

definition sizeof_size_t :: nat where
  "sizeof_size_t = 8"

definition INT_MAX :: int where
  "INT_MAX = 2147483647"

definition write_bytes :: "addr \<Rightarrow> byte list \<Rightarrow> memory \<Rightarrow> memory" where
  "write_bytes a bs m = (\<lambda>x. if a \<le> x \<and> x < a + length bs then bs ! (x - a) else m x)"

definition read_bytes :: "addr \<Rightarrow> nat \<Rightarrow> memory \<Rightarrow> byte list" where
  "read_bytes a n m = map m [a ..< a + n]"

definition size_t_bytes :: "size_t \<Rightarrow> byte list" where
  "size_t_bytes v = map (\<lambda>i. ucast (drop_bit (8 * i) v)) [0 ..< sizeof_size_t]"

definition size_t_of_bytes :: "byte list \<Rightarrow> size_t" where
  "size_t_of_bytes bs = foldr (\<lambda>b acc. ucast b OR push_bit 8 acc) bs 0"

text \<open>\<open>*p = v\<close> and \<open>*p\<close> for \<open>std::size_t* p\<close>.\<close>

definition store_size_t :: "addr \<Rightarrow> size_t \<Rightarrow> memory \<Rightarrow> memory" where
  "store_size_t p v m = write_bytes p (size_t_bytes v) m"

definition load_size_t :: "addr \<Rightarrow> memory \<Rightarrow> size_t" where
  "load_size_t p m = size_t_of_bytes (read_bytes p sizeof_size_t m)"

text \<open>
  The implicit conversion of a \<open>std::size_t\<close> argument to an \<open>int\<close> parameter
  keeps the low 32 bits and reads them as two's complement.
\<close>

definition size_t_to_int :: "size_t \<Rightarrow> int" where
  "size_t_to_int n = sint (ucast n :: 32 word)"

text \<open>
  libxml2's \<open>xmlError\<close> structure, and the exceptions the wrappers throw.  A
  \<open>char*\<close> field is \<open>None\<close> when it is the null pointer; the field \<open>file\<close>
  is \<open>file_name\<close> here.
\<close>

record xmlError =
  domain :: int
  code :: int
  message :: "string option"
  level :: int
  file_name :: "string option"
  line :: int
  str1 :: "string option"
  str2 :: "string option"
  str3 :: "string option"
  int1 :: int
  int2 :: int

datatype exception =
    bad_alloc
  | runtime_error string
  | OSSL_exception
  | XML_Exception xmlError

section \<open>Build configuration (configure.ac)\<close>

text \<open>
  The configure script is a shell program.  Its inputs are the command-line
  options; its result is either an error message (\<open>AC_MSG_ERROR\<close> stops the
  script with status 1) or the list of symbols it has written with
  \<open>AC_DEFINE\<close>, in the order of the script.

  \<open>AC_ARG_ENABLE([f])\<close> sets the shell variable \<open>enable_f\<close> to \<open>yes\<close> for
  \<open>--enable-f\<close>, to the argument for \<open>--enable-f=ARG\<close>, to \<open>no\<close> for
  \<open>--disable-f\<close>, and leaves it unset (it expands to the empty string) when the
  option is absent.  \<open>AC_ARG_WITH\<close> does the same with \<open>withval\<close>.
\<close>

datatype feature_opt = Absent | Given | GivenArg string | Negated

fun optval :: "feature_opt \<Rightarrow> string option" where
  "optval Absent = None"
| "optval Given = Some ''yes''"
| "optval (GivenArg v) = Some v"
| "optval Negated = Some ''no''"

text \<open>The expansion \<open>$var\<close> of a shell variable: empty when unset.\<close>

fun expand :: "string option \<Rightarrow> string" where
  "expand None = ''''"
| "expand (Some v) = v"

record configure_options =
  opt_enable_assert :: feature_opt
  opt_enable_verbose_xml_errors :: feature_opt
  opt_with_buffer_size :: feature_opt

text \<open>
  Lines 30 to 34: \<open>BUFFER_SIZE=$withval\<close> when \<open>--with-buffer-size\<close> is on the
  command line, \<open>BUFFER_SIZE=4\<close> otherwise.
\<close>

definition BUFFER_SIZE :: "configure_options \<Rightarrow> string" where
  "BUFFER_SIZE opts =
     (case optval (opt_with_buffer_size opts) of
        Some withval \<Rightarrow> withval
      | None \<Rightarrow> ''4'')"

text \<open>
  The integer comparisons of the shell's \<open>test\<close> (\<open>[ a -eq b ]\<close>, \<open>-le\<close>,
  \<open>-gt\<close>).  Which strings \<open>test\<close> reads as an integer is the shell's business
  and is a parameter \<open>rd\<close> of the model (\<open>None\<close>: not an integer).  A comparison
  with an operand that is not an integer is an error of \<open>test\<close>: its status is
  not 0 and the \<open>if\<close> takes the \<open>else\<close> branch.
\<close>

type_synonym test_integer = "string \<Rightarrow> int option"

definition test_eq :: "test_integer \<Rightarrow> string \<Rightarrow> string \<Rightarrow> bool" where
  "test_eq rd a b = (case (rd a, rd b) of (Some m, Some n) \<Rightarrow> m = n | _ \<Rightarrow> False)"

definition test_le :: "test_integer \<Rightarrow> string \<Rightarrow> string \<Rightarrow> bool" where
  "test_le rd a b = (case (rd a, rd b) of (Some m, Some n) \<Rightarrow> m \<le> n | _ \<Rightarrow> False)"

definition test_gt :: "test_integer \<Rightarrow> string \<Rightarrow> string \<Rightarrow> bool" where
  "test_gt rd a b = (case (rd a, rd b) of (Some m, Some n) \<Rightarrow> m > n | _ \<Rightarrow> False)"

text \<open>
  A reading of integers for the examples, the one of bash and dash: blanks
  before and after, an optional sign, one or more decimal digits, and a value
  within the range of \<open>intmax_t\<close>.
\<close>

definition is_blank :: "char \<Rightarrow> bool" where
  "is_blank c = ((of_char c :: nat) \<in> {9, 10, 11, 12, 13, 32})"

definition digit_val :: "char \<Rightarrow> int option" where
  "digit_val c =
     (let n = (of_char c :: nat)
      in if 48 \<le> n \<and> n \<le> 57 then Some (int n - 48) else None)"

fun digits_val :: "int \<Rightarrow> string \<Rightarrow> int option" where
  "digits_val acc [] = Some acc"
| "digits_val acc (c # cs) =
     (case digit_val c of None \<Rightarrow> None | Some d \<Rightarrow> digits_val (10 * acc + d) cs)"

fun signed_digits :: "string \<Rightarrow> int option" where
  "signed_digits [] = None"
| "signed_digits (c # cs) =
     (if c = CHR ''-'' then (if cs = [] then None else map_option uminus (digits_val 0 cs))
      else if c = CHR ''+'' then (if cs = [] then None else digits_val 0 cs)
      else digits_val 0 (c # cs))"

definition posix_integer :: test_integer where
  "posix_integer s =
     (case signed_digits (rev (dropWhile is_blank (rev (dropWhile is_blank s)))) of
        None \<Rightarrow> None
      | Some n \<Rightarrow> if - (2 ^ 63) \<le> n \<and> n < 2 ^ 63 then Some n else None)"

text \<open>
  Lines 36 to 62.  The two \<open>AS_IF\<close> tests compare strings; the three tests on
  \<open>BUFFER_SIZE\<close> stop the script in the order of the source.  Each
  \<open>AC_DEFINE\<close> appends one (symbol, value) pair.
\<close>

type_synonym config_header = "(string \<times> string) list"

definition define_NDEBUG :: "configure_options \<Rightarrow> config_header" where
  "define_NDEBUG opts =
     (if ''x'' @ expand (optval (opt_enable_assert opts)) \<noteq> ''xyes''
      then [(''NDEBUG'', ''1'')] else [])"

definition define_VERBOSE_XML_ERRORS :: "configure_options \<Rightarrow> config_header" where
  "define_VERBOSE_XML_ERRORS opts =
     (if ''x'' @ expand (optval (opt_enable_verbose_xml_errors opts)) \<noteq> ''xyes''
      then [(''VERBOSE_XML_ERRORS'', ''1'')] else [])"

definition configure :: "test_integer \<Rightarrow> configure_options \<Rightarrow> string + config_header" where
  "configure rd opts =
     (let ds = define_NDEBUG opts @ define_VERBOSE_XML_ERRORS opts;
          bs = BUFFER_SIZE opts
      in if \<not> test_eq rd bs bs
           then Inl ''--with-buffer-size argument must be an integer.''
         else if test_le rd bs ''0''
           then Inl ''--with-buffer-size argument must equal at least 1.''
         else if test_gt rd bs ''100''
           then Inl ''--with-buffer-size argument must equal at most 100.''
         else Inr (ds @ [(''PIPELINE_BUFFER_SIZE'', bs)]))"

text \<open>
  \<open>AX_PREFIX_CONFIG_H\<close> (line 11) copies the symbols into the installed header
  with the prefix \<open>KEEPASS2PP_\<close>; a symbol is defined for the library's headers
  when configure has defined it.
\<close>

definition defined :: "string \<Rightarrow> string + config_header \<Rightarrow> bool" where
  "defined name r = (case r of Inl _ \<Rightarrow> False | Inr ds \<Rightarrow> map_of ds name \<noteq> None)"

definition value_of :: "string \<Rightarrow> string + config_header \<Rightarrow> string option" where
  "value_of name r = (case r of Inl _ \<Rightarrow> None | Inr ds \<Rightarrow> map_of ds name)"

definition default_options :: configure_options where
  "default_options =
     \<lparr>opt_enable_assert = Absent, opt_enable_verbose_xml_errors = Absent,
      opt_with_buffer_size = Absent\<rparr>"

section \<open>The compressor's allocation callbacks (wrappers.h, namespace Zlib)\<close>

subsection \<open>SafeMemoryManager\<close>

text \<open>
  The heap: the memory, the regions \<open>(base, length)\<close> that the allocator has
  handed out and not taken back, the first address it has never handed out, and
  the number of addresses it can hand out at all.
\<close>

record heap =
  mem :: memory
  regions :: "(addr \<times> nat) list"
  top :: addr
  capacity :: nat

text \<open>
  Modelled from the spec: \<open>SafeMemoryManager::allocate\<close> and
  \<open>SafeMemoryManager::deallocate\<close> are declared in util.h, which is not among the
  sources.  Section 4.1 of the specification: allocate(n) gives a raw region
  and fails only when the underlying allocator fails, with an out-of-memory
  error; deallocate(region, n) zeroes the n bytes and gives the region back.
  A region is given back by its base address, as with \<open>free\<close>.
\<close>

definition SafeMemoryManager_allocate :: "nat \<Rightarrow> heap \<Rightarrow> exception + (addr \<times> heap)" where
  "SafeMemoryManager_allocate n h =
     (if top h + n > capacity h then Inl bad_alloc
      else Inr (top h, h\<lparr>regions := (top h, n) # regions h, top := top h + n\<rparr>))"

definition zero_bytes :: "addr \<Rightarrow> nat \<Rightarrow> memory \<Rightarrow> memory" where
  "zero_bytes p n m = (\<lambda>x. if p \<le> x \<and> x < p + n then 0 else m x)"

definition SafeMemoryManager_deallocate :: "addr \<Rightarrow> nat \<Rightarrow> heap \<Rightarrow> heap" where
  "SafeMemoryManager_deallocate p n h =
     h\<lparr>mem := zero_bytes p n (mem h), regions := filter (\<lambda>(b, l). b \<noteq> p) (regions h)\<rparr>"

subsection \<open>allocFunc and freeFunc\<close>

text \<open>
  Lines 920 to 935 (\<open>Inflater\<close>) and 983 to 998 (\<open>Deflater\<close>); the two classes
  have the same text.  \<open>items*size\<close> is a product of two \<open>uInt\<close> and wraps at
  32 bits before \<open>sizeof(std::size_t)\<close> is added in \<open>std::size_t\<close>.
  \<open>result+1\<close> is the address one \<open>std::size_t\<close> after \<open>result\<close>.  The
  \<open>catch\<close> clause names \<open>std::bad_alloc\<close> only; any other exception leaves
  the function.
\<close>

definition alloc_request :: "uInt \<Rightarrow> uInt \<Rightarrow> nat" where
  "alloc_request items size' = unat ((ucast (items * size') :: size_t) + of_nat sizeof_size_t)"

definition Inflater_allocFunc :: "uInt \<Rightarrow> uInt \<Rightarrow> heap \<Rightarrow> exception + (addr \<times> heap)" where
  "Inflater_allocFunc items size' h =
     (case SafeMemoryManager_allocate (alloc_request items size') h of
        Inr (result, h') \<Rightarrow>
          Inr (result + sizeof_size_t, h'\<lparr>mem := store_size_t result (ucast size') (mem h')\<rparr>)
      | Inl e \<Rightarrow> if e = bad_alloc then Inr (nullptr, h) else Inl e)"

definition Inflater_freeFunc :: "addr \<Rightarrow> heap \<Rightarrow> heap" where
  "Inflater_freeFunc address h =
     (let ptr = address
      in SafeMemoryManager_deallocate ptr (unat (load_size_t ptr (mem h))) h)"

definition Deflater_allocFunc :: "uInt \<Rightarrow> uInt \<Rightarrow> heap \<Rightarrow> exception + (addr \<times> heap)" where
  "Deflater_allocFunc items size' h =
     (case SafeMemoryManager_allocate (alloc_request items size') h of
        Inr (result, h') \<Rightarrow>
          Inr (result + sizeof_size_t, h'\<lparr>mem := store_size_t result (ucast size') (mem h')\<rparr>)
      | Inl e \<Rightarrow> if e = bad_alloc then Inr (nullptr, h) else Inl e)"

definition Deflater_freeFunc :: "addr \<Rightarrow> heap \<Rightarrow> heap" where
  "Deflater_freeFunc address h =
     (let ptr = address
      in SafeMemoryManager_deallocate ptr (unat (load_size_t ptr (mem h))) h)"

text \<open>
  The allocator's invariant: every region lies below \<open>top\<close>.  A heap with
  nothing allocated, for the examples.
\<close>

definition heap_wf :: "heap \<Rightarrow> bool" where
  "heap_wf h = list_all (\<lambda>(b, l). b + l \<le> top h) (regions h)"

definition overlaps :: "addr \<times> nat \<Rightarrow> addr \<times> nat \<Rightarrow> bool" where
  "overlaps r s = (fst r < fst s + snd s \<and> fst s < fst r + snd r)"

definition new_heap :: "addr \<Rightarrow> nat \<Rightarrow> heap" where
  "new_heap start cap = \<lparr>mem = (\<lambda>_. 0), regions = [], top = start, capacity = cap\<rparr>"

definition heap1 :: heap where
  "heap1 = \<lparr>mem = (\<lambda>_. 0), regions = [(4096, 24)], top = 4120, capacity = 8192\<rparr>"

section \<open>OpenSSL wrappers: ownership of the context (wrappers.h, namespace OSSL)\<close>

text \<open>
  \<open>Digest\<close> (lines 105 to 282) and \<open>EvpCipher\<close> (lines 285 to 409) have one
  field each, the pointer \<open>ctx\<close> to the OpenSSL context, and the same inline
  members: the default constructor, the move constructor, \<open>operator bool\<close>,
  \<open>swap\<close> and the assignment operator that takes its argument by value.
\<close>

record wrapper =
  ctx :: addr






text \<open>
  A program state: the wrapper objects that are alive, by name; the contexts
  that OpenSSL has allocated and not freed; the last address OpenSSL has handed
  out.
\<close>

record world =
  objects :: "nat \<Rightarrow> wrapper option"
  contexts :: "addr list"
  last_ctx :: addr



definition free_context :: "addr \<Rightarrow> world \<Rightarrow> world" where
  "free_context p w = w\<lparr>contexts := removeAll p (contexts w)\<rparr>"


datatype argument = Lvalue | Rvalue






text \<open>
  The operations of a program on its wrapper objects, each a function from the
  state to the new state.  \<open>None\<close>: the program is not one (it names an
  object that is not alive, constructs an object twice, calls a function that
  is deleted or that the class does not have, writes a call that is
  ill-formed, or uses an invalid object where that is not defined).  The flag
  of an operation says whether its OpenSSL call succeeds.
\<close>

definition put :: "nat \<Rightarrow> wrapper \<Rightarrow> world \<Rightarrow> world" where
  "put x d w = w\<lparr>objects := (objects w)(x \<mapsto> d)\<rparr>"
















text \<open>
  Unique ownership: two different objects that are alive never hold the same
  context unless both are invalid; a context that an object holds is allocated;
  no allocated context is null or beyond the last address handed out.
\<close>

definition ctx_of :: "world \<Rightarrow> nat \<Rightarrow> addr option" where
  "ctx_of w x = map_option ctx (objects w x)"






section \<open>OSSL::rand (wrappers.h, lines 411 to 415)\<close>

text \<open>
  What \<open>RAND_bytes\<close> can see and change: the memory and OpenSSL's random
  generator.  The generator is the sequence of bytes it will produce, how many
  of them it has produced, and whether it works.
\<close>

record rand_state =
  ram :: memory
  stream :: "nat \<Rightarrow> byte"
  drawn :: nat
  healthy :: bool

text \<open>
  \<open>int RAND_bytes(unsigned char *buf, int num)\<close> is OpenSSL's and is a
  parameter of the model: a function from the buffer, the count and the state
  to the returned \<open>int\<close> and the new state.
\<close>

type_synonym RAND_bytes_fn = "addr \<Rightarrow> int \<Rightarrow> rand_state \<Rightarrow> int \<times> rand_state"

text \<open>
  \<open>if (RAND_bytes(data, size) != 1) throw exception();\<close> The argument \<open>size\<close>
  is a \<open>std::size_t\<close> and the parameter an \<open>int\<close>.  The result is the
  exception thrown, if any, and the state the call leaves.
\<close>

definition rand :: "RAND_bytes_fn \<Rightarrow> addr \<Rightarrow> size_t \<Rightarrow> rand_state \<Rightarrow> exception option \<times> rand_state" where
  "rand RAND_bytes data size' s =
     (case RAND_bytes data (size_t_to_int size') s of
        (r, s') \<Rightarrow> if r \<noteq> 1 then (Some OSSL_exception, s') else (None, s'))"

text \<open>
  The state after \<open>n\<close> random bytes have been put at \<open>buf\<close>, and nothing else
  has changed.
\<close>

definition fill :: "addr \<Rightarrow> nat \<Rightarrow> rand_state \<Rightarrow> rand_state" where
  "fill buf n s =
     s\<lparr>ram := write_bytes buf (map (stream s) [drawn s ..< drawn s + n]) (ram s),
       drawn := drawn s + n\<rparr>"

text \<open>
  OpenSSL's description of \<open>RAND_bytes\<close>: it puts \<open>num\<close> random bytes into
  \<open>buf\<close> and returns 1 on success.  \<open>RAND_bytes_model\<close> is a function that
  does so, and fails when the generator does not work or the count is negative.
\<close>

definition RAND_bytes_contract :: "RAND_bytes_fn \<Rightarrow> bool" where
  "RAND_bytes_contract R =
     (\<forall>buf num s. 0 \<le> num \<and> fst (R buf num s) = 1 \<longrightarrow> snd (R buf num s) = fill buf (nat num) s)"

definition RAND_bytes_model :: RAND_bytes_fn where
  "RAND_bytes_model buf num s =
     (if healthy s \<and> 0 \<le> num then (1, fill buf (nat num) s) else (0, s))"

definition rand_state0 :: rand_state where
  "rand_state0 = \<lparr>ram = (\<lambda>_. 0), stream = (\<lambda>i. of_nat i + 1), drawn = 0, healthy = True\<rparr>"

section \<open>XML::Exception::throwLastError (wrappers.h, namespace XML)\<close>

text \<open>
  \<open>Error()\<close> (line 523) fills the structure with zero bytes.
  \<open>Error(xmlErrorPtr err)\<close> (line 528) does the same and then calls
  \<open>xmlCopyError(err, &error)\<close>, which copies every field and does nothing for
  a null \<open>err\<close>.  \<open>Exception(xmlErrorPtr err)\<close> (line 607) holds \<open>Error(err)\<close>.
\<close>

definition XML_ERR_NO_MEMORY :: int where
  "XML_ERR_NO_MEMORY = 2"

definition Error_empty :: xmlError where
  "Error_empty =
     \<lparr>domain = 0, code = 0, message = None, level = 0, file_name = None, line = 0,
      str1 = None, str2 = None, str3 = None, int1 = 0, int2 = 0\<rparr>"

definition Error_of :: "xmlError option \<Rightarrow> xmlError" where
  "Error_of err = (case err of None \<Rightarrow> Error_empty | Some e \<Rightarrow> e)"

definition Exception_of :: "xmlError option \<Rightarrow> exception" where
  "Exception_of err = XML_Exception (Error_of err)"

text \<open>
  Modelled from the spec: \<open>XML::Exception::throwLastError\<close> is declared in
  wrappers.h (line 641) and defined in a file that is not among the sources.
  Its comment (lines 628 to 640): it throws an \<open>Exception\<close> that contains a
  copy of the error returned by \<open>xmlGetLastError()\<close>; if that is
  \<open>nullptr\<close>, the exception contains an empty, default-constructed \<open>Error\<close>;
  if the error has the code \<open>XML_ERR_NO_MEMORY\<close>, an instance of
  \<open>std::bad_alloc\<close> is thrown instead; the method does not return.  Section 7
  of the specification: an allocator failure is the error OutOfMemory.  The
  argument is what \<open>xmlGetLastError()\<close> returns; the result is the exception
  thrown, or \<open>Inr\<close> for a return.
\<close>

definition throwLastError :: "xmlError option \<Rightarrow> exception + unit" where
  "throwLastError lastError =
     (case lastError of
        None \<Rightarrow> Inl (XML_Exception Error_empty)
      | Some e \<Rightarrow>
          if code e = XML_ERR_NO_MEMORY then Inl bad_alloc
          else Inl (Exception_of (Some e)))"

definition xml_error_example :: "int \<Rightarrow> xmlError" where
  "xml_error_example c = Error_empty\<lparr>domain := 1, code := c, message := Some ''error'', level := 3\<rparr>"

section \<open>One-shot compression and decompression (wrappers.h, namespace Zlib)\<close>

text \<open>
  The declarations (lines 972 and 1045) give the default window-bits
  arguments: \<open>MAX_WBITS | 16\<close> for \<open>Inflater::oneShot\<close> and \<open>MAX_WBITS\<close> for
  \<open>Deflater::oneShot\<close>.
\<close>

definition MAX_WBITS :: int where
  "MAX_WBITS = 15"

definition Inflater_oneShot_windowBits :: int where
  "Inflater_oneShot_windowBits = MAX_WBITS OR 16"

definition Deflater_oneShot_windowBits :: int where
  "Deflater_oneShot_windowBits = MAX_WBITS"

text \<open>
  \<open>Inflater::throwError\<close> (lines 964 to 970) throws a \<open>std::runtime_error\<close>
  whose message is the context, the return value in parentheses, the message
  of zlib when there is one, and a full stop.
\<close>

fun show_nat :: "nat \<Rightarrow> string" where
  "show_nat n =
     (if n < 10 then [''0123456789'' ! n]
      else show_nat (n div 10) @ [''0123456789'' ! (n mod 10)])"

definition show_int :: "int \<Rightarrow> string" where
  "show_int i = (if i < 0 then ''-'' @ show_nat (nat (- i)) else show_nat (nat i))"

definition throwError :: "string \<Rightarrow> int \<Rightarrow> string option \<Rightarrow> exception" where
  "throwError context retval msg =
     runtime_error
       (context @ '' ('' @ show_int retval @ '')''
        @ (case msg of None \<Rightarrow> '''' | Some m \<Rightarrow> '': '' @ m) @ ''.'')"

definition Z_STREAM_ERROR :: int where
  "Z_STREAM_ERROR = - 2"

definition Z_DATA_ERROR :: int where
  "Z_DATA_ERROR = - 3"

text \<open>
  Modelled from the spec: the bodies of \<open>Deflater::oneShot\<close> and
  \<open>Inflater::oneShot\<close> are in a file that is not among the sources, and zlib
  is a library.  Section 2 of the specification: the compressor produces raw
  deflate or gzip, and the write side runs the inverse operations of the read
  side.  zlib.h on the window-bits argument of \<open>deflateInit2\<close> and
  \<open>inflateInit2\<close>: 8 to 15 is the zlib format, a two-byte header before the
  deflate data and a checksum after it; -8 to -15 is raw deflate; 16 added is
  the gzip format, whose header starts with the bytes 1f 8b; for
  \<open>inflateInit2\<close> 32 added detects zlib or gzip from the header, and 0 in
  place of 8 to 15 takes the window size from the stream; \<open>deflateInit2\<close>
  refuses a window of 256 bytes for raw deflate and for gzip.  An
  inflater in the gzip format answers data that does not start with a gzip
  header with \<open>Z_DATA_ERROR\<close> and the message incorrect header check; in the
  zlib format the header's first byte must name the deflate method and the
  two bytes, read as a number, must be divisible by 31.

  The deflate data itself and the checksum behind it are zlib's and are
  parameters of the model: a coder from the input to these bytes and a
  decoder back, which fails on bytes it cannot read.
\<close>

datatype zformat = ZlibFormat | GzipFormat | RawFormat | DetectFormat

definition deflate_format :: "int \<Rightarrow> zformat option" where
  "deflate_format windowBits =
     (if 8 \<le> windowBits \<and> windowBits \<le> 15 then Some ZlibFormat
      else if - 15 \<le> windowBits \<and> windowBits \<le> - 9 then Some RawFormat
      else if 25 \<le> windowBits \<and> windowBits \<le> 31 then Some GzipFormat
      else None)"

definition inflate_format :: "int \<Rightarrow> zformat option" where
  "inflate_format windowBits =
     (if windowBits < 0
        then (if - 15 \<le> windowBits \<and> windowBits \<le> - 8 then Some RawFormat else None)
      else if windowBits < 48 \<and> (windowBits mod 16 = 0 \<or> 8 \<le> windowBits mod 16)
        then Some (if windowBits < 16 then ZlibFormat
                   else if windowBits < 32 then GzipFormat
                   else DetectFormat)
      else None)"

text \<open>
  The two bytes of the zlib header: the method and the window size, then the
  compression level and the bits that make the pair divisible by 31.  A
  deflater asked for a window of 256 bytes uses one of 512.
\<close>

definition zlib_header :: "int \<Rightarrow> byte list" where
  "zlib_header windowBits =
     (let w = (if windowBits = 8 then 9 else windowBits);
          cmf = (w - 8) * 16 + 8;
          flg = 128;
          flg' = flg + (31 - (cmf * 256 + flg) mod 31)
      in [word_of_int cmf, word_of_int flg'])"

definition gzip_header :: "byte list" where
  "gzip_header = [0x1f, 0x8b, 8, 0, 0, 0, 0, 0, 0, 3]"

definition stream_header :: "zformat \<Rightarrow> int \<Rightarrow> byte list" where
  "stream_header f windowBits =
     (case f of
        ZlibFormat \<Rightarrow> zlib_header windowBits
      | GzipFormat \<Rightarrow> gzip_header
      | _ \<Rightarrow> [])"

definition is_gzip_header :: "byte list \<Rightarrow> bool" where
  "is_gzip_header bs = (take 3 bs = [0x1f, 0x8b, 8] \<and> 10 \<le> length bs)"

definition is_zlib_header :: "byte list \<Rightarrow> bool" where
  "is_zlib_header bs =
     (case bs of
        cmf # flg # _ \<Rightarrow> (uint cmf * 256 + uint flg) mod 31 = 0 \<and> cmf AND 15 = 8
      | _ \<Rightarrow> False)"

text \<open>
  What an inflater of format \<open>f\<close> makes of the start of its input: the format
  of the stream and the bytes behind the header, or \<open>None\<close> for an incorrect
  header.
\<close>

definition strip_header :: "zformat \<Rightarrow> byte list \<Rightarrow> (zformat \<times> byte list) option" where
  "strip_header f bs =
     (case f of
        RawFormat \<Rightarrow> Some (RawFormat, bs)
      | GzipFormat \<Rightarrow> if is_gzip_header bs then Some (GzipFormat, drop 10 bs) else None
      | ZlibFormat \<Rightarrow> if is_zlib_header bs then Some (ZlibFormat, drop 2 bs) else None
      | DetectFormat \<Rightarrow>
          if is_gzip_header bs then Some (GzipFormat, drop 10 bs)
          else if is_zlib_header bs then Some (ZlibFormat, drop 2 bs)
          else None)"

record deflate_coder =
  encode :: "zformat \<Rightarrow> byte list \<Rightarrow> byte list"
  decode :: "zformat \<Rightarrow> byte list \<Rightarrow> byte list option"

definition Deflater_oneShot :: "deflate_coder \<Rightarrow> byte list \<Rightarrow> int \<Rightarrow> exception + byte list" where
  "Deflater_oneShot c input windowBits =
     (case deflate_format windowBits of
        None \<Rightarrow> Inl (throwError ''Error initializing compression'' Z_STREAM_ERROR None)
      | Some f \<Rightarrow> Inr (stream_header f windowBits @ encode c f input))"

definition Inflater_oneShot :: "deflate_coder \<Rightarrow> byte list \<Rightarrow> int \<Rightarrow> exception + byte list" where
  "Inflater_oneShot c input windowBits =
     (case inflate_format windowBits of
        None \<Rightarrow> Inl (throwError ''Error initializing decompression'' Z_STREAM_ERROR None)
      | Some f \<Rightarrow>
          (case strip_header f input of
             None \<Rightarrow>
               Inl (throwError ''Error decompressing'' Z_DATA_ERROR (Some ''incorrect header check''))
           | Some (f', body) \<Rightarrow>
               (case decode c f' body of
                  None \<Rightarrow> Inl (throwError ''Error decompressing'' Z_DATA_ERROR None)
                | Some output \<Rightarrow> Inr output)))"

text \<open>
  The round trip of the claim: compress at the deflater's default, decompress
  the result at the inflater's default.
\<close>

definition oneShot_round_trip :: "deflate_coder \<Rightarrow> byte list \<Rightarrow> exception + byte list" where
  "oneShot_round_trip c x =
     (case Deflater_oneShot c x Deflater_oneShot_windowBits of
        Inl e \<Rightarrow> Inl e
      | Inr z \<Rightarrow> Inflater_oneShot c z Inflater_oneShot_windowBits)"

text \<open>
  A coder for the examples: it stores the input as it is, as deflate does in a
  stored block, without a checksum.
\<close>

definition stored_coder :: deflate_coder where
  "stored_coder = \<lparr>encode = (\<lambda>f x. x), decode = (\<lambda>f z. Some z)\<rparr>"

chapter \<open>Properties\<close>

section \<open>Build configuration\<close>

lemma posix_lits: "posix_integer ''0'' = Some 0" "posix_integer ''100'' = Some 100" "posix_integer ''4'' = Some 4"
  by (simp_all add: posix_integer_def digit_val_def is_blank_def)

lemma configure_cases:
  "configure rd opts =
     (case rd (BUFFER_SIZE opts) of
        None \<Rightarrow> Inl ''--with-buffer-size argument must be an integer.''
      | Some n \<Rightarrow>
          if test_le rd (BUFFER_SIZE opts) ''0''
            then Inl ''--with-buffer-size argument must equal at least 1.''
          else if test_gt rd (BUFFER_SIZE opts) ''100''
            then Inl ''--with-buffer-size argument must equal at most 100.''
          else Inr (define_NDEBUG opts @ define_VERBOSE_XML_ERRORS opts
                      @ [(''PIPELINE_BUFFER_SIZE'', BUFFER_SIZE opts)]))"
  by (simp add: configure_def test_eq_def Let_def split: option.splits)

lemma value_of_PIPELINE_BUFFER_SIZE:
  "value_of ''PIPELINE_BUFFER_SIZE''
     (Inr (define_NDEBUG opts @ define_VERBOSE_XML_ERRORS opts @ [(''PIPELINE_BUFFER_SIZE'', bs)]))
   = Some bs"
  by (simp add: value_of_def define_NDEBUG_def define_VERBOSE_XML_ERRORS_def)

text \<open>
  Claim C3.  Let the shell read the three literals of the script as the numbers
  they write.  Then configure accepts exactly when \<open>BUFFER_SIZE\<close> reads as an
  integer between 1 and 100; when it accepts, \<open>PIPELINE_BUFFER_SIZE\<close> is defined
  to the text of \<open>BUFFER_SIZE\<close>, which is the argument of \<open>--with-buffer-size\<close>
  and is 4 when the option is absent; a value that is not an integer, a value
  below 1 and a value above 100 each stop configure with their own error.
\<close>

theorem configure_buffer_size:
  assumes "rd ''0'' = Some 0" and "rd ''100'' = Some 100" and "rd ''4'' = Some 4"
  shows "((\<exists>ds. configure rd opts = Inr ds) \<longleftrightarrow>
            (\<exists>n. rd (BUFFER_SIZE opts) = Some n \<and> 1 \<le> n \<and> n \<le> 100))
       \<and> ((\<exists>ds. configure rd opts = Inr ds) \<longrightarrow>
            value_of ''PIPELINE_BUFFER_SIZE'' (configure rd opts) = Some (BUFFER_SIZE opts))
       \<and> (opt_with_buffer_size opts = GivenArg v \<longrightarrow> BUFFER_SIZE opts = v)
       \<and> (opt_with_buffer_size opts = Absent \<longrightarrow>
            value_of ''PIPELINE_BUFFER_SIZE'' (configure rd opts) = Some ''4'')
       \<and> (rd (BUFFER_SIZE opts) = None \<longrightarrow>
            configure rd opts = Inl ''--with-buffer-size argument must be an integer.'')
       \<and> (\<forall>n. rd (BUFFER_SIZE opts) = Some n \<and> n < 1 \<longrightarrow>
            configure rd opts = Inl ''--with-buffer-size argument must equal at least 1.'')
       \<and> (\<forall>n. rd (BUFFER_SIZE opts) = Some n \<and> 100 < n \<longrightarrow>
            configure rd opts = Inl ''--with-buffer-size argument must equal at most 100.'')"
proof (cases "rd (BUFFER_SIZE opts)")
  case None
  have dflt: "opt_with_buffer_size opts \<noteq> Absent"
    using None assms(3) by (auto simp: BUFFER_SIZE_def)
  show ?thesis
    using None dflt by (auto simp: configure_cases BUFFER_SIZE_def)
next
  case (Some n)
  have le: "test_le rd (BUFFER_SIZE opts) ''0'' \<longleftrightarrow> n < 1"
    using Some assms(1) by (auto simp: test_le_def)
  have gt: "test_gt rd (BUFFER_SIZE opts) ''100'' \<longleftrightarrow> 100 < n"
    using Some assms(2) by (auto simp: test_gt_def)
  have dflt: "opt_with_buffer_size opts = Absent \<Longrightarrow> n = 4"
    using Some assms(3) by (simp add: BUFFER_SIZE_def)
  have arg: "opt_with_buffer_size opts = GivenArg v \<Longrightarrow> BUFFER_SIZE opts = v"
    by (simp add: BUFFER_SIZE_def)
  have dflt': "opt_with_buffer_size opts = Absent \<Longrightarrow> BUFFER_SIZE opts = ''4''"
    by (simp add: BUFFER_SIZE_def)
  show ?thesis
  proof (cases "1 \<le> n \<and> n \<le> 100")
    case True
    then have c: "configure rd opts =
        Inr (define_NDEBUG opts @ define_VERBOSE_XML_ERRORS opts
               @ [(''PIPELINE_BUFFER_SIZE'', BUFFER_SIZE opts)])"
      using Some le gt by (simp add: configure_cases)
    show ?thesis
      unfolding c value_of_PIPELINE_BUFFER_SIZE using Some True arg dflt' by auto
  next
    case False
    then have c: "configure rd opts =
        (if n < 1 then Inl ''--with-buffer-size argument must equal at least 1.''
         else Inl ''--with-buffer-size argument must equal at most 100.'')"
      using Some le gt by (auto simp: configure_cases)
    show ?thesis
      unfolding c using Some False arg dflt by auto
  qed
qed

text \<open>
  The theorem at the shell reading \<open>posix_integer\<close>: the arguments 100, none,
  \<open>ten\<close>, 0 and 101.
\<close>

theorem configure_buffer_size_witness:
  "posix_integer ''0'' = Some 0 \<and> posix_integer ''100'' = Some 100 \<and> posix_integer ''4'' = Some 4
   \<and> (\<exists>ds. configure posix_integer (default_options\<lparr>opt_with_buffer_size := GivenArg ''100''\<rparr>) = Inr ds)
   \<and> value_of ''PIPELINE_BUFFER_SIZE''
        (configure posix_integer (default_options\<lparr>opt_with_buffer_size := GivenArg ''100''\<rparr>))
      = Some ''100''
   \<and> value_of ''PIPELINE_BUFFER_SIZE'' (configure posix_integer default_options) = Some ''4''
   \<and> configure posix_integer (default_options\<lparr>opt_with_buffer_size := GivenArg ''ten''\<rparr>)
      = Inl ''--with-buffer-size argument must be an integer.''
   \<and> configure posix_integer (default_options\<lparr>opt_with_buffer_size := GivenArg ''0''\<rparr>)
      = Inl ''--with-buffer-size argument must equal at least 1.''
   \<and> configure posix_integer (default_options\<lparr>opt_with_buffer_size := GivenArg ''101''\<rparr>)
      = Inl ''--with-buffer-size argument must equal at most 100.''"
proof -
  note lits = posix_lits
  let ?o100 = "default_options\<lparr>opt_with_buffer_size := GivenArg ''100''\<rparr>"
  let ?oten = "default_options\<lparr>opt_with_buffer_size := GivenArg ''ten''\<rparr>"
  let ?o0 = "default_options\<lparr>opt_with_buffer_size := GivenArg ''0''\<rparr>"
  let ?o101 = "default_options\<lparr>opt_with_buffer_size := GivenArg ''101''\<rparr>"
  have r100: "posix_integer (BUFFER_SIZE ?o100) = Some 100"
    by (simp add: BUFFER_SIZE_def posix_integer_def digit_val_def is_blank_def)
  have r4: "opt_with_buffer_size default_options = Absent"
    by (simp add: default_options_def)
  have rten: "posix_integer (BUFFER_SIZE ?oten) = None"
    by (simp add: BUFFER_SIZE_def posix_integer_def digit_val_def is_blank_def)
  have r0: "posix_integer (BUFFER_SIZE ?o0) = Some 0"
    by (simp add: BUFFER_SIZE_def posix_integer_def digit_val_def is_blank_def)
  have r101: "posix_integer (BUFFER_SIZE ?o101) = Some 101"
    by (simp add: BUFFER_SIZE_def posix_integer_def digit_val_def is_blank_def)
  have b100: "opt_with_buffer_size ?o100 = GivenArg ''100''"
    by simp
  note T100 = configure_buffer_size [OF lits, of ?o100 "''100''"]
  have acc: "\<exists>ds. configure posix_integer ?o100 = Inr ds"
    using T100 r100 by fastforce
  have val: "value_of ''PIPELINE_BUFFER_SIZE'' (configure posix_integer ?o100) = Some ''100''"
    using T100 acc b100 by metis
  have dfl: "value_of ''PIPELINE_BUFFER_SIZE'' (configure posix_integer default_options) = Some ''4''"
    using configure_buffer_size [OF lits, of default_options] r4 by blast
  have e1: "configure posix_integer ?oten = Inl ''--with-buffer-size argument must be an integer.''"
    using configure_buffer_size [OF lits, of ?oten] rten by blast
  have e2: "configure posix_integer ?o0 = Inl ''--with-buffer-size argument must equal at least 1.''"
    using configure_buffer_size [OF lits, of ?o0] r0 by fastforce
  have e3: "configure posix_integer ?o101 = Inl ''--with-buffer-size argument must equal at most 100.''"
    using configure_buffer_size [OF lits, of ?o101] r101 by fastforce
  show ?thesis
    using lits acc val dfl e1 e2 e3 by blast
qed

text \<open>
  Both feature tests of the script have the same shape: the symbol is defined
  when the option's variable is not \<open>yes\<close>.
\<close>

lemma define_flags:
  "(\<exists>ds. configure rd opts = Inr ds) \<Longrightarrow>
     (defined ''NDEBUG'' (configure rd opts) \<longleftrightarrow> optval (opt_enable_assert opts) \<noteq> Some ''yes'')
   \<and> (defined ''VERBOSE_XML_ERRORS'' (configure rd opts) \<longleftrightarrow>
        optval (opt_enable_verbose_xml_errors opts) \<noteq> Some ''yes'')"
  by (cases "optval (opt_enable_assert opts)"; cases "optval (opt_enable_verbose_xml_errors opts)")
     (auto simp: configure_def Let_def defined_def define_NDEBUG_def define_VERBOSE_XML_ERRORS_def
           split: if_splits)

text \<open>
  Claim C4.  \<open>NDEBUG\<close> is defined exactly when assertions are not enabled, as
  the claim says.  The test for the verbose XML errors is the same test, so
  \<open>VERBOSE_XML_ERRORS\<close> is missing exactly when \<open>--enable-verbose-xml-errors\<close>
  is given, and defined when it is absent: the opposite of the option's help
  text and of the header's comment on \<open>XML::toString\<close>.  Configure accepts
  both command lines.
\<close>

theorem verbose_xml_errors_inverted:
  "\<not> defined ''VERBOSE_XML_ERRORS''
       (configure posix_integer (default_options\<lparr>opt_enable_verbose_xml_errors := Given\<rparr>))
   \<and> defined ''VERBOSE_XML_ERRORS'' (configure posix_integer default_options)
   \<and> (\<exists>ds. configure posix_integer (default_options\<lparr>opt_enable_verbose_xml_errors := Given\<rparr>) = Inr ds)"
  by (simp add: configure_def Let_def defined_def define_NDEBUG_def define_VERBOSE_XML_ERRORS_def
      default_options_def BUFFER_SIZE_def test_eq_def test_le_def test_gt_def posix_integer_def digit_val_def is_blank_def)

section \<open>The compressor's allocation callbacks\<close>

lemma Deflater_allocFunc_eq: "Deflater_allocFunc = Inflater_allocFunc"
  by (intro ext) (simp add: Deflater_allocFunc_def Inflater_allocFunc_def)

lemma Deflater_freeFunc_eq: "Deflater_freeFunc = Inflater_freeFunc"
  by (intro ext) (simp add: Deflater_freeFunc_def Inflater_freeFunc_def)

lemma alloc_request_eq: "alloc_request items size' = unat (items * size') + sizeof_size_t"
proof -
  have lt: "unat (items * size') < 2 ^ 32"
    using unsigned_less [of "items * size'", where ?'a = nat] by simp
  then have "take_bit 64 (unat (items * size')) = unat (items * size')"
    by (intro take_bit_nat_eq_self) simp
  then have "unat (ucast (items * size') :: size_t) = unat (items * size')"
    by (simp add: unsigned_ucast_eq)
  then have "unat ((ucast (items * size') :: size_t) + 8) = unat (items * size') + 8"
    using lt by (simp add: unat_word_ariths)
  then show ?thesis
    by (simp add: alloc_request_def sizeof_size_t_def)
qed

lemma alloc_request_ge: "sizeof_size_t \<le> alloc_request items size'"
  by (simp add: alloc_request_eq)

lemma allocate_cases:
  "SafeMemoryManager_allocate n h = Inl bad_alloc \<or>
   SafeMemoryManager_allocate n h =
     Inr (top h, h\<lparr>regions := (top h, n) # regions h, top := top h + n\<rparr>)"
  by (simp add: SafeMemoryManager_allocate_def)

lemma allocate_fresh:
  assumes "heap_wf h"
  shows "list_all (\<lambda>r. \<not> overlaps (top h, n) r) (regions h)"
  using assms by (auto simp: heap_wf_def overlaps_def list_all_iff)

text \<open>
  Claim C10.  On a heap that satisfies the allocator's invariant, \<open>allocFunc\<close>
  of either class always returns a pointer and never an exception.  When
  \<open>SafeMemoryManager::allocate\<close> throws \<open>std::bad_alloc\<close> the pointer is null and
  the heap is unchanged.  When it returns a region, the pointer is one
  \<open>std::size_t\<close> past the region's base: it is not null, it lies in the region
  (at its end when \<open>items*size\<close> is 0), and the region is new: it is the one
  region added to the heap and overlaps none that was there.
\<close>

theorem allocFunc_returns_null_or_region:
  assumes "heap_wf h"
  shows "(\<exists>p h'. Inflater_allocFunc items size' h = Inr (p, h'))
       \<and> Deflater_allocFunc items size' h = Inflater_allocFunc items size' h
       \<and> (SafeMemoryManager_allocate (alloc_request items size') h = Inl bad_alloc \<longrightarrow>
            Inflater_allocFunc items size' h = Inr (nullptr, h))
       \<and> (\<forall>base h1. SafeMemoryManager_allocate (alloc_request items size') h = Inr (base, h1) \<longrightarrow>
            (\<exists>h'. Inflater_allocFunc items size' h = Inr (base + sizeof_size_t, h')
                \<and> base + sizeof_size_t \<noteq> nullptr
                \<and> regions h' = (base, alloc_request items size') # regions h
                \<and> list_all (\<lambda>r. \<not> overlaps (base, alloc_request items size') r) (regions h)
                \<and> base < base + sizeof_size_t
                \<and> base + sizeof_size_t \<le> base + alloc_request items size'
                \<and> heap_wf h'))"
proof -
  let ?n = "alloc_request items size'"
  from allocate_cases [of ?n h] show ?thesis
  proof
    assume "SafeMemoryManager_allocate ?n h = Inl bad_alloc"
    then show ?thesis
      by (simp add: Inflater_allocFunc_def Deflater_allocFunc_eq)
  next
    assume ok: "SafeMemoryManager_allocate ?n h =
      Inr (top h, h\<lparr>regions := (top h, ?n) # regions h, top := top h + ?n\<rparr>)"
    have wf': "heap_wf (h\<lparr>regions := (top h, ?n) # regions h, top := top h + ?n,
                 mem := store_size_t (top h) (ucast size') (mem h)\<rparr>)"
      using assms by (auto simp: heap_wf_def list_all_iff)
    show ?thesis
      using ok allocate_fresh [OF assms, of ?n] alloc_request_ge [of items size'] wf'
      by (simp add: Inflater_allocFunc_def Deflater_allocFunc_eq sizeof_size_t_def nullptr_def)
  qed
qed

text \<open>
  The theorem on a heap that holds one region: a request of 2 items of 8 bytes
  succeeds, a request of 1024 items of 1024 bytes exceeds the capacity.
\<close>

theorem allocFunc_returns_null_or_region_witness:
  "heap_wf heap1
   \<and> (\<exists>h'. Inflater_allocFunc 2 8 heap1 = Inr (4128, h')
          \<and> regions h' = [(4120, 24), (4096, 24)] \<and> heap_wf h')
   \<and> Deflater_allocFunc 2 8 heap1 = Inflater_allocFunc 2 8 heap1
   \<and> Inflater_allocFunc 1024 1024 heap1 = Inr (nullptr, heap1)"
proof -
  have wf: "heap_wf heap1"
    by (simp add: heap_wf_def heap1_def)
  have r1: "alloc_request 2 8 = 24" and r2: "alloc_request 1024 1024 = 1048584"
    by (simp_all add: alloc_request_def sizeof_size_t_def)
  have a1: "SafeMemoryManager_allocate (alloc_request 2 8) heap1 =
      Inr (4120, heap1\<lparr>regions := (4120, 24) # regions heap1, top := 4144\<rparr>)"
    by (simp add: r1 SafeMemoryManager_allocate_def heap1_def)
  have a2: "SafeMemoryManager_allocate (alloc_request 1024 1024) heap1 = Inl bad_alloc"
    by (simp add: r2 SafeMemoryManager_allocate_def heap1_def)
  note T1 = allocFunc_returns_null_or_region [OF wf, of 2 8]
  note T2 = allocFunc_returns_null_or_region [OF wf, of 1024 1024]
  from T1 a1 obtain h' where
    h': "Inflater_allocFunc 2 8 heap1 = Inr (4120 + sizeof_size_t, h')"
        "regions h' = (4120, alloc_request 2 8) # regions heap1" "heap_wf h'"
    by blast
  have b1: "\<exists>h'. Inflater_allocFunc 2 8 heap1 = Inr (4128, h')
          \<and> regions h' = [(4120, 24), (4096, 24)] \<and> heap_wf h'"
    using h' by (simp add: sizeof_size_t_def r1 heap1_def)
  have b2: "Deflater_allocFunc 2 8 heap1 = Inflater_allocFunc 2 8 heap1"
    using T1 by blast
  have b3: "Inflater_allocFunc 1024 1024 heap1 = Inr (nullptr, heap1)"
    using T2 a2 by blast
  show ?thesis
    using wf b1 b2 b3 by blast
qed

text \<open>
  \<open>freeFunc\<close> hands \<open>SafeMemoryManager::deallocate\<close> the address it was given,
  which is the one \<open>allocFunc\<close> returned and not the base of the region, and as
  length the \<open>std::size_t\<close> it finds there, which is the first word of the
  caller's data and not the header \<open>allocFunc\<close> wrote.
\<close>

lemma freeFunc_gives_back:
  "Inflater_freeFunc address h =
     SafeMemoryManager_deallocate address (unat (load_size_t address (mem h))) h"
  "Deflater_freeFunc address h = Inflater_freeFunc address h"
  by (simp_all add: Inflater_freeFunc_def Deflater_freeFunc_def)

lemma zero_bytes_0: "zero_bytes p 0 m = m"
  by (rule ext) (auto simp: zero_bytes_def)

text \<open>
  Claim C2.  The claim fails on the code.  \<open>allocFunc(1, 16)\<close> on an empty heap
  takes the region of 24 bytes at 4096 and returns 4104.  The caller writes 16
  bytes there, the first 8 of them zero.  \<open>freeFunc(4104)\<close> then calls
  \<open>deallocate(4104, 0)\<close>: the region stays allocated and none of its 24 bytes
  is zeroed, where \<open>deallocate(4096, 24)\<close> would have released it and zeroed
  all of them.
\<close>

theorem freeFunc_not_the_allocation:
  "(case Inflater_allocFunc 1 16 (new_heap 4096 8192) of
      Inl e \<Rightarrow> False
    | Inr (address, h1) \<Rightarrow>
        (let h2 = h1\<lparr>mem := write_bytes address [0, 0, 0, 0, 0, 0, 0, 0, 170, 170, 170, 170, 170, 170, 170, 170] (mem h1)\<rparr>;
             h3 = Inflater_freeFunc address h2
         in address = 4104
          \<and> regions h1 = [(4096, 24)]
          \<and> regions h3 = [(4096, 24)]
          \<and> read_bytes 4096 24 (mem h3) = [16, 0, 0, 0, 0, 0, 0, 0, 0, 0, 0, 0, 0, 0, 0, 0, 170, 170, 170, 170, 170, 170, 170, 170]
          \<and> regions (SafeMemoryManager_deallocate 4096 24 h2) = []
          \<and> read_bytes 4096 24 (mem (SafeMemoryManager_deallocate 4096 24 h2)) = [0, 0, 0, 0, 0, 0, 0, 0, 0, 0, 0, 0, 0, 0, 0, 0, 0, 0, 0, 0, 0, 0, 0, 0]
          \<and> Deflater_freeFunc address h2 = h3))"
proof -
  define h1 where "h1 = new_heap 4096 8192\<lparr>regions := [(4096, 24)], top := 4120,
    mem := store_size_t 4096 16 (\<lambda>_. 0)\<rparr>"
  define h2 where "h2 = h1\<lparr>mem := write_bytes 4104 [0, 0, 0, 0, 0, 0, 0, 0, 170, 170, 170, 170, 170, 170, 170, 170] (mem h1)\<rparr>"
  have req: "alloc_request 1 16 = 24"
    by (simp add: alloc_request_def sizeof_size_t_def)
  have alloc: "Inflater_allocFunc 1 16 (new_heap 4096 8192) = Inr (4104, h1)"
    by (simp add: Inflater_allocFunc_def SafeMemoryManager_allocate_def new_heap_def req
        sizeof_size_t_def h1_def)
  have m2: "read_bytes 4096 24 (mem h2) = [16, 0, 0, 0, 0, 0, 0, 0, 0, 0, 0, 0, 0, 0, 0, 0, 170, 170, 170, 170, 170, 170, 170, 170]"
    by (simp add: h2_def h1_def new_heap_def read_bytes_def write_bytes_def store_size_t_def
        size_t_bytes_def sizeof_size_t_def)
  have ld: "load_size_t 4104 (mem h2) = 0"
    by (simp add: h2_def h1_def new_heap_def load_size_t_def read_bytes_def write_bytes_def
        store_size_t_def size_t_bytes_def size_t_of_bytes_def sizeof_size_t_def)
  have r2: "regions h2 = [(4096, 24)]" and r1: "regions h1 = [(4096, 24)]"
    by (simp_all add: h2_def h1_def)
  have "Inflater_freeFunc 4104 h2 = SafeMemoryManager_deallocate 4104 0 h2"
    by (simp add: freeFunc_gives_back ld)
  also have "\<dots> = h2"
    using r2 by (cases h2) (simp add: SafeMemoryManager_deallocate_def zero_bytes_0)
  finally have free: "Inflater_freeFunc 4104 h2 = h2" .
  have d: "regions (SafeMemoryManager_deallocate 4096 24 h2) = []"
    by (simp add: SafeMemoryManager_deallocate_def r2)
  have z: "read_bytes 4096 24 (mem (SafeMemoryManager_deallocate 4096 24 h2)) = [0, 0, 0, 0, 0, 0, 0, 0, 0, 0, 0, 0, 0, 0, 0, 0, 0, 0, 0, 0, 0, 0, 0, 0]"
    by (simp add: SafeMemoryManager_deallocate_def zero_bytes_def read_bytes_def)
  show ?thesis
    unfolding alloc
    by (simp add: Let_def h2_def [symmetric] free r1 r2 m2 d z freeFunc_gives_back(2))
qed

section \<open>OpenSSL wrappers: ownership of the context\<close>

lemma ctx_of_put [simp]: "ctx_of (put x d w) y = (if y = x then Some (ctx d) else ctx_of w y)"
  by (simp add: ctx_of_def put_def)

lemma contexts_put [simp]: "contexts (put x d w) = contexts w"
  by (simp add: put_def)

lemma last_ctx_put [simp]: "last_ctx (put x d w) = last_ctx w"
  by (simp add: put_def)

lemma ctx_of_free [simp]: "ctx_of (free_context p w) y = ctx_of w y"
  by (simp add: ctx_of_def free_context_def)

lemma contexts_free [simp]: "contexts (free_context p w) = removeAll p (contexts w)"
  by (simp add: free_context_def)

lemma last_ctx_free [simp]: "last_ctx (free_context p w) = last_ctx w"
  by (simp add: free_context_def)

lemma ctx_of_erase [simp]:
  "ctx_of (w\<lparr>objects := (objects w)(x := None)\<rparr>) y = (if y = x then None else ctx_of w y)"
  by (simp add: ctx_of_def)


lemma ctx_of_grow [simp]: "ctx_of (w\<lparr>contexts := cs, last_ctx := l\<rparr>) y = ctx_of w y"
  by (simp add: ctx_of_def)

text \<open>The three parts of the invariant, to introduce and to use.\<close>






text \<open>Each operation keeps the invariant.\<close>


























section \<open>OSSL::rand\<close>

lemma size_t_to_int_small:
  assumes "uint n \<le> INT_MAX"
  shows "size_t_to_int n = uint n"
proof -
  have "- (2 ^ 31) \<le> (0 :: int)" by simp
  also have "0 \<le> uint n" by (rule uint_nonnegative)
  finally have lo: "- (2 ^ 31) \<le> uint n" .
  have hi: "uint n < 2 ^ 31"
    using assms by (simp add: INT_MAX_def)
  have "signed_take_bit 31 (uint n) = uint n"
    by (rule signed_take_bit_int_eq_self [OF lo hi])
  then show ?thesis
    by (simp add: size_t_to_int_def signed_ucast_eq)
qed

lemma size_t_to_int_wraps: "size_t_to_int 4294967297 = 1"
  by (simp add: size_t_to_int_def)

lemma RAND_bytes_model_contract: "RAND_bytes_contract RAND_bytes_model"
  by (simp add: RAND_bytes_contract_def RAND_bytes_model_def)

text \<open>
  For every size, \<open>rand\<close> throws exactly when \<open>RAND_bytes\<close> does not return 1,
  and the state it leaves is the one \<open>RAND_bytes\<close> leaves; the count that
  \<open>RAND_bytes\<close> receives is the size converted to \<open>int\<close>.
\<close>

lemma rand_throws_iff:
  "fst (rand R data size' s) = (if fst (R data (size_t_to_int size') s) \<noteq> 1 then Some OSSL_exception else None)"
  "snd (rand R data size' s) = snd (R data (size_t_to_int size') s)"
  by (simp_all add: rand_def split: prod.splits)

text \<open>
  Sizes up to \<open>INT_MAX\<close>.  Let \<open>RAND_bytes\<close> do what OpenSSL says it does, and
  let the size be at most \<open>INT_MAX\<close>.  Then \<open>rand(data, size)\<close> throws exactly
  when \<open>RAND_bytes(data, size)\<close> returns a value other than 1, and when it
  returns normally the state is the one where exactly \<open>size\<close> random bytes
  have been put at \<open>data\<close> and nothing else has changed.
\<close>

lemma rand_fills_size_bytes:
  assumes "RAND_bytes_contract R" and "uint size' \<le> INT_MAX"
  shows "(fst (rand R data size' s) = Some OSSL_exception \<longleftrightarrow> fst (R data (uint size') s) \<noteq> 1)
       \<and> (fst (rand R data size' s) = None \<longleftrightarrow> fst (R data (uint size') s) = 1)
       \<and> (fst (rand R data size' s) = None \<longrightarrow> snd (rand R data size' s) = fill data (unat size') s)"
proof -
  have n: "size_t_to_int size' = uint size'"
    by (rule size_t_to_int_small [OF assms(2)])
  have f: "fst (R data (uint size') s) = 1 \<Longrightarrow> snd (R data (uint size') s) = fill data (unat size') s"
    using assms(1) unfolding RAND_bytes_contract_def
    by (metis nat_uint_eq uint_nonnegative)
  show ?thesis
    using f by (simp add: rand_throws_iff n)
qed

text \<open>
  The lemma at \<open>RAND_bytes_model\<close>, for 3 bytes at address 100, with a
  generator that works and with one that does not.
\<close>

lemma rand_fills_size_bytes_example:
  "RAND_bytes_contract RAND_bytes_model \<and> uint (3 :: size_t) \<le> INT_MAX
   \<and> fst (rand RAND_bytes_model 100 3 rand_state0) = None
   \<and> snd (rand RAND_bytes_model 100 3 rand_state0) = fill 100 3 rand_state0
   \<and> read_bytes 100 4 (ram (fill 100 3 rand_state0)) = [1, 2, 3, 0]
   \<and> fst (rand RAND_bytes_model 100 3 (rand_state0\<lparr>healthy := False\<rparr>)) = Some OSSL_exception"
proof -
  have c: "RAND_bytes_contract RAND_bytes_model"
    by (rule RAND_bytes_model_contract)
  have i: "uint (3 :: size_t) \<le> INT_MAX"
    by (simp add: INT_MAX_def)
  have ok: "fst (RAND_bytes_model 100 (uint (3 :: size_t)) rand_state0) = 1"
    by (simp add: RAND_bytes_model_def rand_state0_def)
  have bad: "fst (RAND_bytes_model 100 (uint (3 :: size_t)) (rand_state0\<lparr>healthy := False\<rparr>)) \<noteq> 1"
    by (simp add: RAND_bytes_model_def rand_state0_def)
  have u: "unat (3 :: size_t) = 3" by simp
  have r: "read_bytes 100 4 (ram (fill 100 3 rand_state0)) = [1, 2, 3, 0]"
    by (simp add: fill_def rand_state0_def read_bytes_def write_bytes_def)
  show ?thesis
    using rand_fills_size_bytes [OF c i, of 100 rand_state0]
      rand_fills_size_bytes [OF c i, of 100 "rand_state0\<lparr>healthy := False\<rparr>"]
      c i ok bad r unfolding u by blast
qed

text \<open>
  Claim C5.  The claim fails on the code for a size above \<open>INT_MAX\<close>: the size
  \<open>2^32 + 1\<close> reaches \<open>RAND_bytes\<close> as the count 1.  \<open>rand\<close> returns
  normally, and one byte has been put at \<open>data\<close>, not 4294967297, against the
  function's own comment.
\<close>

theorem rand_truncates_size:
  "unat (4294967297 :: size_t) = 4294967297
   \<and> fst (rand RAND_bytes_model 100 4294967297 rand_state0) = None
   \<and> snd (rand RAND_bytes_model 100 4294967297 rand_state0) = fill 100 1 rand_state0
   \<and> snd (rand RAND_bytes_model 100 4294967297 rand_state0) \<noteq> fill 100 4294967297 rand_state0"
proof -
  have r: "rand RAND_bytes_model 100 4294967297 rand_state0 = (None, fill 100 1 rand_state0)"
    by (simp add: rand_def size_t_to_int_wraps RAND_bytes_model_def rand_state0_def)
  have "drawn (fill 100 1 rand_state0) \<noteq> drawn (fill 100 4294967297 rand_state0)"
    by (simp add: fill_def rand_state0_def)
  then have "fill 100 1 rand_state0 \<noteq> fill 100 4294967297 rand_state0"
    by metis
  then show ?thesis
    by (simp add: r)
qed

section \<open>XML::Exception::throwLastError\<close>

text \<open>
  Claim C8.  \<open>throwLastError\<close> never returns.  When the last error has the
  code \<open>XML_ERR_NO_MEMORY\<close> it throws \<open>std::bad_alloc\<close>, which is not an
  \<open>XML::Exception\<close>; in every other case it throws an \<open>XML::Exception\<close> that
  holds a copy of the last error, or the empty \<open>Error\<close> when there is none.
\<close>

theorem throwLastError_throws:
  "throwLastError lastError \<noteq> Inr ()
   \<and> (\<forall>e. lastError = Some e \<and> code e = XML_ERR_NO_MEMORY \<longrightarrow>
         throwLastError lastError = Inl bad_alloc \<and> (\<forall>err. throwLastError lastError \<noteq> Inl (XML_Exception err)))
   \<and> (\<forall>e. lastError = Some e \<and> code e \<noteq> XML_ERR_NO_MEMORY \<longrightarrow>
         throwLastError lastError = Inl (XML_Exception e))
   \<and> (lastError = None \<longrightarrow> throwLastError lastError = Inl (XML_Exception Error_empty))"
  by (cases lastError) (simp_all add: throwLastError_def Exception_of_def Error_of_def)

text \<open>The theorem for an out-of-memory error, for a parser error and for no error.\<close>

theorem throwLastError_throws_witness:
  "code (xml_error_example 2) = XML_ERR_NO_MEMORY
   \<and> throwLastError (Some (xml_error_example 2)) = Inl bad_alloc
   \<and> code (xml_error_example 5) \<noteq> XML_ERR_NO_MEMORY
   \<and> throwLastError (Some (xml_error_example 5)) = Inl (XML_Exception (xml_error_example 5))
   \<and> throwLastError None = Inl (XML_Exception Error_empty)"
proof -
  have a: "code (xml_error_example 2) = XML_ERR_NO_MEMORY"
    and b: "code (xml_error_example 5) \<noteq> XML_ERR_NO_MEMORY"
    by (simp_all add: xml_error_example_def XML_ERR_NO_MEMORY_def)
  show ?thesis
    using throwLastError_throws [of "Some (xml_error_example 2)"]
      throwLastError_throws [of "Some (xml_error_example 5)"]
      throwLastError_throws [of None] a b
    by blast
qed

section \<open>One-shot compression and decompression\<close>

lemma oneShot_windowBits: "Inflater_oneShot_windowBits = 31" "Deflater_oneShot_windowBits = 15"
  by (simp_all add: Inflater_oneShot_windowBits_def Deflater_oneShot_windowBits_def MAX_WBITS_def)

lemma zlib_header_15: "zlib_header 15 = [0x78, 0x9c]"
  by (simp add: zlib_header_def Let_def)

text \<open>
  Claim C1.  The claim fails on the code.  The two defaults differ: 15 for the
  deflater, the zlib format, and 31 for the inflater, the gzip format.  For
  every input and every coder of the deflate data, \<open>Deflater::oneShot\<close> at its
  default writes a stream that starts with the zlib header 78 9c, and
  \<open>Inflater::oneShot\<close> at its default refuses it as an incorrect gzip header
  and throws: no input comes back, the empty one included.
\<close>

theorem oneShot_defaults_do_not_match:
  "Deflater_oneShot_windowBits \<noteq> Inflater_oneShot_windowBits
   \<and> Deflater_oneShot c x Deflater_oneShot_windowBits = Inr ([0x78, 0x9c] @ encode c ZlibFormat x)
   \<and> oneShot_round_trip c x =
       Inl (throwError ''Error decompressing'' Z_DATA_ERROR (Some ''incorrect header check''))
   \<and> oneShot_round_trip c x \<noteq> Inr x
   \<and> oneShot_round_trip stored_coder [] =
       Inl (runtime_error ''Error decompressing (-3): incorrect header check.'')"
proof -
  have d: "Deflater_oneShot c x Deflater_oneShot_windowBits = Inr ([0x78, 0x9c] @ encode c ZlibFormat x)" for c x
    by (simp add: Deflater_oneShot_def oneShot_windowBits deflate_format_def stream_header_def zlib_header_15)
  have i: "Inflater_oneShot c ([0x78, 0x9c] @ z) Inflater_oneShot_windowBits =
      Inl (throwError ''Error decompressing'' Z_DATA_ERROR (Some ''incorrect header check''))" for c z
    by (simp add: Inflater_oneShot_def oneShot_windowBits inflate_format_def strip_header_def is_gzip_header_def)
  have r: "oneShot_round_trip c x =
      Inl (throwError ''Error decompressing'' Z_DATA_ERROR (Some ''incorrect header check''))" for c x
    by (simp add: oneShot_round_trip_def d i del: append.simps)
  have m: "throwError ''Error decompressing'' Z_DATA_ERROR (Some ''incorrect header check'') =
      runtime_error ''Error decompressing (-3): incorrect header check.''"
    by (simp add: throwError_def Z_DATA_ERROR_def show_int_def)
  have w: "Deflater_oneShot_windowBits \<noteq> Inflater_oneShot_windowBits"
    by (simp add: oneShot_windowBits)
  have n: "oneShot_round_trip c x \<noteq> Inr x"
    by (simp add: r)
  have s: "oneShot_round_trip stored_coder [] =
      Inl (runtime_error ''Error decompressing (-3): incorrect header check.'')"
    by (simp only: r m)
  show ?thesis
    using w d [of c x] r [of c x] n s by blast
qed
text \<open>
  With \<open>MAX_WBITS | 16\<close> on both sides, as the inflater has it, the round trip
  gives the input back whenever the decoder inverts the coder.
\<close>

lemma oneShot_gzip_round_trip:
  assumes "decode c GzipFormat (encode c GzipFormat x) = Some x"
  shows "Deflater_oneShot c x (MAX_WBITS OR 16) = Inr (gzip_header @ encode c GzipFormat x)"
    and "Inflater_oneShot c (gzip_header @ encode c GzipFormat x) Inflater_oneShot_windowBits = Inr x"
proof -
  have w: "MAX_WBITS OR 16 = 31"
    by (simp add: MAX_WBITS_def)
  show "Deflater_oneShot c x (MAX_WBITS OR 16) = Inr (gzip_header @ encode c GzipFormat x)"
    by (simp add: w Deflater_oneShot_def deflate_format_def stream_header_def)
  have h: "strip_header GzipFormat (gzip_header @ z) = Some (GzipFormat, z)" for z
    by (simp add: strip_header_def is_gzip_header_def gzip_header_def)
  show "Inflater_oneShot c (gzip_header @ encode c GzipFormat x) Inflater_oneShot_windowBits = Inr x"
    using assms by (simp add: Inflater_oneShot_def oneShot_windowBits inflate_format_def h)
qed

end
